theory Spec2Isabelle
  imports Main
begin

section \<open>smiles\_to\_image.py: a shallow embedding\<close>

text \<open>
  The script reads a SMILES string (from \<open>--smiles\<close>, from standard input or from the
  first line of a file), hands it to RDKit, and writes the drawing to the output path as
  SVG text or as a raster image. The embedding follows \<open>scripts/smiles_to_image.py\<close>
  function by function. What the script calls but does not define is modelled beside it:
  the string methods \<open>strip\<close>, \<open>splitlines\<close> and \<open>lower\<close>, the \<open>pathlib\<close> operations on a
  small file system, and the RDKit and PIL calls, which are parameters.
\<close>

subsection \<open>Python strings\<close>

text \<open>
  A Python \<open>str\<close> is a sequence of code points. A \<open>char\<close> stands for one code point
  below 256, so the model covers text in that range.
\<close>

definition isspace :: "char \<Rightarrow> bool" where
  \<comment> \<open>\<open>str.isspace\<close> on one character: TAB, LF, VT, FF, CR, FS, GS, RS, US, space, NEL, NBSP.\<close>
  "isspace c = (of_char c \<in> {9, 10, 11, 12, 13, 28, 29, 30, 31, 32, 133, 160 :: nat})"

definition strip :: "string \<Rightarrow> string" where
  \<comment> \<open>\<open>str.strip()\<close>: whitespace is removed at both ends.\<close>
  "strip s = rev (dropWhile isspace (rev (dropWhile isspace s)))"

definition is_linebreak :: "char \<Rightarrow> bool" where
  \<comment> \<open>The line boundaries of \<open>str.splitlines\<close>: LF, VT, FF, CR, FS, GS, RS, NEL.\<close>
  "is_linebreak c = (of_char c \<in> {10, 11, 12, 13, 28, 29, 30, 133 :: nat})"

fun splitlines_from :: "string \<Rightarrow> string \<Rightarrow> string list" where
  \<comment> \<open>The first argument is the line read so far; CR LF is one boundary.\<close>
  "splitlines_from cur [] = (if cur = [] then [] else [cur])"
| "splitlines_from cur [c] =
     (if is_linebreak c then [cur] else [cur @ [c]])"
| "splitlines_from cur (c # d # cs) =
     (if c = CHR 0x0D \<and> d = CHR 0x0A then cur # splitlines_from [] cs
      else if is_linebreak c then cur # splitlines_from [] (d # cs)
      else splitlines_from (cur @ [c]) (d # cs))"

definition splitlines :: "string \<Rightarrow> string list" where
  "splitlines s = splitlines_from [] s"

definition lower_char :: "char \<Rightarrow> char" where
  \<comment> \<open>A to Z and the capital letters of Latin-1 (0xC0 to 0xDE without 0xD7) move up by 32.\<close>
  "lower_char c =
     (let n = (of_char c :: nat)
      in if (65 \<le> n \<and> n \<le> 90) \<or> (192 \<le> n \<and> n \<le> 222 \<and> n \<noteq> 215)
         then char_of (n + 32) else c)"

definition lower :: "string \<Rightarrow> string" where
  "lower s = map lower_char s"

primrec rfind :: "string \<Rightarrow> char \<Rightarrow> int" where
  \<comment> \<open>\<open>str.rfind\<close>: the index of the last occurrence, or -1.\<close>
  "rfind [] c = -1"
| "rfind (x # xs) c =
     (let r = rfind xs c in if 0 \<le> r then r + 1 else if x = c then 0 else -1)"

subsection \<open>Paths and the file system\<close>

text \<open>
  A \<open>pathlib.Path\<close> is its anchor (the root or the working directory, \<open>Root\<close>) followed
  by plain component names. \<open>Child d n\<close> is the entry \<open>n\<close> of \<open>d\<close>.
\<close>

datatype path = Root | Child path string

fun parent :: "path \<Rightarrow> path" where
  "parent Root = Root"
| "parent (Child d n) = d"

fun name :: "path \<Rightarrow> string" where
  "name Root = []"
| "name (Child d n) = n"

definition suffix :: "path \<Rightarrow> string" where
  \<comment> \<open>\<open>PurePath.suffix\<close>: from the last dot of the name on, when that dot is neither the
      first nor the last character.\<close>
  "suffix p =
     (let nm = name p; i = rfind nm (CHR ''.'')
      in if 0 < i \<and> i < int (length nm) - 1 then drop (nat i) nm else [])"

datatype node = Dir | File string

type_synonym fs = "path \<Rightarrow> node option"

datatype oserror = FileNotFoundError | NotADirectoryError | IsADirectoryError | FileExistsError

datatype exn = SystemExit string | OSError oserror | IndexError | ValueError

fun dir_status :: "fs \<Rightarrow> path \<Rightarrow> oserror option" where
  \<comment> \<open>Resolving a path as a directory: \<open>None\<close> when every component is a directory,
      otherwise the error of the first component that is not.\<close>
  "dir_status fs Root = None"
| "dir_status fs (Child d n) =
     (case dir_status fs d of
        Some e \<Rightarrow> Some e
      | None \<Rightarrow>
          (case fs (Child d n) of
             None \<Rightarrow> Some FileNotFoundError
           | Some (File c) \<Rightarrow> Some NotADirectoryError
           | Some Dir \<Rightarrow> None))"

definition is_dir :: "fs \<Rightarrow> path \<Rightarrow> bool" where
  "is_dir fs p = (dir_status fs p = None)"

fun os_mkdir :: "path \<Rightarrow> fs \<Rightarrow> oserror + fs" where
  "os_mkdir Root fs = Inl FileExistsError"
| "os_mkdir (Child d n) fs =
     (case dir_status fs d of
        Some e \<Rightarrow> Inl e
      | None \<Rightarrow>
          (case fs (Child d n) of
             Some x \<Rightarrow> Inl FileExistsError
           | None \<Rightarrow> Inr (fs(Child d n \<mapsto> Dir))))"

definition mkdir_exist_ok :: "path \<Rightarrow> fs \<Rightarrow> oserror + fs" where
  \<comment> \<open>\<open>Path.mkdir(parents=False, exist_ok=True)\<close>.\<close>
  "mkdir_exist_ok p fs =
     (case os_mkdir p fs of
        Inr fs' \<Rightarrow> Inr fs'
      | Inl FileNotFoundError \<Rightarrow> Inl FileNotFoundError
      | Inl e \<Rightarrow> if is_dir fs p then Inr fs else Inl e)"

fun mkdir :: "path \<Rightarrow> fs \<Rightarrow> oserror + fs" where
  \<comment> \<open>\<open>Path.mkdir(parents=True, exist_ok=True)\<close>.\<close>
  "mkdir Root fs =
     (case os_mkdir Root fs of
        Inr fs' \<Rightarrow> Inr fs'
      | Inl FileNotFoundError \<Rightarrow> Inl FileNotFoundError
      | Inl e \<Rightarrow> if is_dir fs Root then Inr fs else Inl e)"
| "mkdir (Child d n) fs =
     (case os_mkdir (Child d n) fs of
        Inr fs' \<Rightarrow> Inr fs'
      | Inl FileNotFoundError \<Rightarrow>
          (case mkdir d fs of
             Inl e \<Rightarrow> Inl e
           | Inr fs1 \<Rightarrow> mkdir_exist_ok (Child d n) fs1)
      | Inl e \<Rightarrow> if is_dir fs (Child d n) then Inr fs else Inl e)"

fun read_text :: "path \<Rightarrow> fs \<Rightarrow> oserror + string" where
  "read_text Root fs = Inl IsADirectoryError"
| "read_text (Child d n) fs =
     (case dir_status fs d of
        Some e \<Rightarrow> Inl e
      | None \<Rightarrow>
          (case fs (Child d n) of
             None \<Rightarrow> Inl FileNotFoundError
           | Some Dir \<Rightarrow> Inl IsADirectoryError
           | Some (File c) \<Rightarrow> Inr c))"

fun write_file :: "path \<Rightarrow> string \<Rightarrow> fs \<Rightarrow> oserror + fs" where
  \<comment> \<open>Opening the path for writing and writing the content: the file is created or
      replaced.\<close>
  "write_file Root c fs = Inl IsADirectoryError"
| "write_file (Child d n) c fs =
     (case dir_status fs d of
        Some e \<Rightarrow> Inl e
      | None \<Rightarrow>
          (case fs (Child d n) of
             Some Dir \<Rightarrow> Inl IsADirectoryError
           | _ \<Rightarrow> Inr (fs(Child d n \<mapsto> File c))))"

subsection \<open>The external libraries\<close>

text \<open>
  RDKit and PIL are parameters. \<open>MolFromSmiles\<close> returns \<open>None\<close> for a string it cannot
  parse. \<open>Compute2DCoords\<close> annotates the molecule in place; the model returns the
  annotated molecule. \<open>image_save\<close> stands for \<open>Image.save(path)\<close>: PIL picks the encoder
  from the path, and the model receives the bytes it writes there, or \<open>None\<close> when PIL
  knows no encoder for the path and raises \<open>ValueError\<close> before it opens the file. The
  other calls are taken to return normally.
\<close>

record ('mol, 'drawer, 'img) rdkit =
  MolFromSmiles :: "string \<Rightarrow> 'mol option"
  Compute2DCoords :: "'mol \<Rightarrow> 'mol"
  MolDraw2DSVG :: "int \<Rightarrow> int \<Rightarrow> 'drawer"
  DrawMolecule :: "'drawer \<Rightarrow> 'mol \<Rightarrow> 'drawer"
  FinishDrawing :: "'drawer \<Rightarrow> 'drawer"
  GetDrawingText :: "'drawer \<Rightarrow> string"
  MolToImage :: "'mol \<Rightarrow> int \<times> int \<Rightarrow> 'img"
  image_save :: "'img \<Rightarrow> path \<Rightarrow> string option"

subsection \<open>The script\<close>

text \<open>
  \<open>args\<close> is the namespace that \<open>parse_args\<close> returns: \<open>--smiles\<close> and \<open>--input\<close> are
  \<open>None\<close> when absent, \<open>--output\<close> is required, \<open>--size\<close> defaults to 400 by 300. A command
  line that \<open>argparse\<close> itself refuses never reaches \<open>main\<close>.
\<close>

record args =
  smiles :: "string option"
  input :: "path option"
  output_arg :: path
  size_arg :: "int \<times> int"

record world =
  stdin :: string
  files :: fs

definition no_source_msg :: string where
  "no_source_msg = ''Please provide a SMILES string with --smiles or --input.''"

definition invalid_msg :: "string \<Rightarrow> string" where
  "invalid_msg s = ''Invalid SMILES string: '' @ s"

definition read_smiles :: "args \<Rightarrow> world \<Rightarrow> exn + string" where
  \<comment> \<open>\<open>if args.smiles\<close> holds for a string that is not empty; \<open>if args.input\<close> holds for
      every \<open>Path\<close>. \<open>splitlines()[0]\<close> raises \<open>IndexError\<close> on an empty list.\<close>
  "read_smiles a w =
     (case smiles a of
        Some (c # cs) \<Rightarrow>
          (if c # cs = ''-'' then Inr (strip (stdin w)) else Inr (strip (c # cs)))
      | _ \<Rightarrow>
          (case input a of
             Some p \<Rightarrow>
               (case read_text p (files w) of
                  Inl e \<Rightarrow> Inl (OSError e)
                | Inr t \<Rightarrow>
                    (case splitlines t of
                       [] \<Rightarrow> Inl IndexError
                     | l # ls \<Rightarrow> Inr (strip l)))
           | None \<Rightarrow> Inl (SystemExit no_source_msg)))"

definition build_molecule :: "('mol, 'drawer, 'img) rdkit \<Rightarrow> string \<Rightarrow> exn + 'mol" where
  "build_molecule lib s =
     (case MolFromSmiles lib s of
        None \<Rightarrow> Inl (SystemExit (invalid_msg s))
      | Some molecule \<Rightarrow> Inr (Compute2DCoords lib molecule))"

definition drawing_text :: "('mol, 'drawer, 'img) rdkit \<Rightarrow> 'mol \<Rightarrow> int \<times> int \<Rightarrow> string" where
  \<comment> \<open>Lines 76 to 79: the drawer is made, draws the molecule, finishes and gives its text.\<close>
  "drawing_text lib molecule sz =
     GetDrawingText lib
       (FinishDrawing lib (DrawMolecule lib (MolDraw2DSVG lib (fst sz) (snd sz)) molecule))"

definition save_drawing ::
  "('mol, 'drawer, 'img) rdkit \<Rightarrow> 'mol \<Rightarrow> path \<Rightarrow> int \<times> int \<Rightarrow> fs \<Rightarrow> exn option \<times> fs" where
  \<comment> \<open>The result is the exception raised, if any, and the file system left behind.\<close>
  "save_drawing lib molecule output_path sz fs =
     (case mkdir (parent output_path) fs of
        Inl e \<Rightarrow> (Some (OSError e), fs)
      | Inr fs1 \<Rightarrow>
          (if lower (suffix output_path) = ''.svg'' then
             (case write_file output_path (drawing_text lib molecule sz) fs1 of
                Inl e \<Rightarrow> (Some (OSError e), fs1)
              | Inr fs2 \<Rightarrow> (None, fs2))
           else
             (case image_save lib (MolToImage lib molecule sz) output_path of
                None \<Rightarrow> (Some ValueError, fs1)
              | Some bytes \<Rightarrow>
                  (case write_file output_path bytes fs1 of
                     Inl e \<Rightarrow> (Some (OSError e), fs1)
                   | Inr fs2 \<Rightarrow> (None, fs2)))))"

definition main :: "('mol, 'drawer, 'img) rdkit \<Rightarrow> args \<Rightarrow> world \<Rightarrow> exn option \<times> fs" where
  "main lib a w =
     (case read_smiles a w of
        Inl e \<Rightarrow> (Some e, files w)
      | Inr s \<Rightarrow>
          (case build_molecule lib s of
             Inl e \<Rightarrow> (Some e, files w)
           | Inr molecule \<Rightarrow> save_drawing lib molecule (output_arg a) (size_arg a) (files w)))"

text \<open>
  What the interpreter makes of the run. \<open>SystemExit\<close> with a string prints the string on
  standard error and the exit status is 1; any other exception that nothing catches
  prints a traceback on standard error and the exit status is 1 as well; a run that
  returns has status 0.
\<close>

datatype stderr_text = Silent | Message string | Traceback exn

record outcome =
  status :: nat
  stderr :: stderr_text
  disk :: fs

definition run_script :: "('mol, 'drawer, 'img) rdkit \<Rightarrow> args \<Rightarrow> world \<Rightarrow> outcome" where
  "run_script lib a w =
     (case main lib a w of
        (None, fs') \<Rightarrow> \<lparr>status = 0, stderr = Silent, disk = fs'\<rparr>
      | (Some (SystemExit m), fs') \<Rightarrow> \<lparr>status = 1, stderr = Message m, disk = fs'\<rparr>
      | (Some e, fs') \<Rightarrow> \<lparr>status = 1, stderr = Traceback e, disk = fs'\<rparr>)"

subsection \<open>Vocabulary of the statements\<close>

text \<open>\<open>on_way_to q d\<close>: \<open>q\<close> is \<open>d\<close> or one of the directories above it.\<close>

fun on_way_to :: "path \<Rightarrow> path \<Rightarrow> bool" where
  "on_way_to q Root = (q = Root)"
| "on_way_to q (Child d n) = (q = Child d n \<or> on_way_to q d)"

text \<open>
  Concrete runs use a small stand-in for the library. \<open>toy_rdkit\<close> parses the non-empty
  words over C, N and O and knows the PNG encoder only; \<open>toy_rdkit_lenient\<close> also returns
  a molecule, with no atoms, for the empty string.
\<close>

definition toy_rdkit :: "(string, string, string) rdkit" where
  "toy_rdkit =
     \<lparr>MolFromSmiles =
        (\<lambda>s. if s \<noteq> [] \<and> list_all (\<lambda>c. c \<in> set ''CNO'') s then Some s else None),
      Compute2DCoords = (\<lambda>m. m),
      MolDraw2DSVG = (\<lambda>w h. ''<svg>''),
      DrawMolecule = (\<lambda>d m. d @ m),
      FinishDrawing = (\<lambda>d. d @ ''</svg>''),
      GetDrawingText = (\<lambda>d. d),
      MolToImage = (\<lambda>m sz. m),
      image_save = (\<lambda>i p. if lower (suffix p) = ''.png'' then Some (''PNG:'' @ i) else None)\<rparr>"

definition toy_rdkit_lenient :: "(string, string, string) rdkit" where
  "toy_rdkit_lenient =
     toy_rdkit\<lparr>MolFromSmiles :=
       (\<lambda>s. if list_all (\<lambda>c. c \<in> set ''CNO'') s then Some s else None)\<rparr>"

definition cli :: "string option \<Rightarrow> path option \<Rightarrow> path \<Rightarrow> args" where
  \<comment> \<open>A command line without \<open>--size\<close>.\<close>
  "cli s i out = \<lparr>smiles = s, input = i, output_arg = out, size_arg = (400, 300)\<rparr>"

definition disk_with :: "string \<Rightarrow> fs" where
  \<comment> \<open>A file system that holds the one file \<open>mol.smi\<close>.\<close>
  "disk_with t = [Child Root ''mol.smi'' \<mapsto> File t]"

lemmas string_eval = strip_def isspace_def splitlines_def is_linebreak_def lower_def
  lower_char_def suffix_def Let_def char_of_def bit_Suc_0_iff

lemmas script_eval = run_script_def main_def read_smiles_def build_molecule_def
  save_drawing_def drawing_text_def invalid_msg_def no_source_msg_def is_dir_def
  mkdir_exist_ok_def cli_def toy_rdkit_def toy_rdkit_lenient_def disk_with_def

section \<open>Properties of the library model\<close>

subsection \<open>\<open>strip\<close> leaves no whitespace at either end\<close>

lemma strip_trimmed:
  "strip s = [] \<or> (\<not> isspace (hd (strip s)) \<and> \<not> isspace (last (strip s)))"
proof (cases "strip s = []")
  case True
  then show ?thesis by simp
next
  case False
  define zs where "zs = dropWhile isspace s"
  define ys where "ys = dropWhile isspace (rev zs)"
  have st: "strip s = rev ys" by (simp add: strip_def ys_def zs_def)
  from False st have ne: "ys \<noteq> []" by simp
  have h: "\<not> isspace (hd ys)" using ne unfolding ys_def by (rule hd_dropWhile)
  have "rev zs = takeWhile isspace (rev zs) @ ys" by (simp add: ys_def)
  then have "last (rev zs) = last ys" using ne by (metis last_appendR)
  moreover have zne: "zs \<noteq> []" using ne by (auto simp: ys_def)
  ultimately have "last ys = hd zs" by (simp add: last_rev)
  moreover have "\<not> isspace (hd zs)" using zne unfolding zs_def by (rule hd_dropWhile)
  ultimately have l: "\<not> isspace (last ys)" by simp
  from h l ne st show ?thesis by (simp add: hd_rev last_rev)
qed

subsection \<open>What \<open>mkdir\<close> and \<open>write_file\<close> change\<close>

lemma dir_status_None_Dir:
  "dir_status fs d = None \<Longrightarrow> on_way_to q d \<Longrightarrow> q \<noteq> Root \<Longrightarrow> fs q = Some Dir"
  by (induction d) (auto split: option.splits node.splits)

lemma on_way_to_size: "on_way_to q d \<Longrightarrow> size q \<le> size d"
  by (induction d) auto

lemma not_on_way_to_Child: "\<not> on_way_to (Child d n) d"
  using on_way_to_size [of "Child d n" d] by auto

lemma dir_status_upd:
  "\<not> on_way_to p d \<Longrightarrow> dir_status (fs(p := x)) d = dir_status fs d"
  by (induction d) (auto split: option.splits node.splits)

lemma mkdir_exist_ok_result:
  "mkdir_exist_ok (Child d n) fs =
     (case dir_status fs d of
        Some e \<Rightarrow> Inl e
      | None \<Rightarrow>
          (case fs (Child d n) of
             None \<Rightarrow> Inr (fs(Child d n \<mapsto> Dir))
           | Some Dir \<Rightarrow> Inr fs
           | Some (File c) \<Rightarrow> Inl FileExistsError))"
  by (auto simp: mkdir_exist_ok_def is_dir_def split: option.splits node.splits oserror.splits)

lemma mkdir_Child:
  "mkdir (Child d n) fs =
     (case dir_status fs d of
        Some FileNotFoundError \<Rightarrow>
          (case mkdir d fs of Inl e \<Rightarrow> Inl e | Inr fs1 \<Rightarrow> mkdir_exist_ok (Child d n) fs1)
      | Some e \<Rightarrow> Inl e
      | None \<Rightarrow>
          (case fs (Child d n) of
             None \<Rightarrow> Inr (fs(Child d n \<mapsto> Dir))
           | Some Dir \<Rightarrow> Inr fs
           | Some (File c) \<Rightarrow> Inl FileExistsError))"
  by (auto simp: is_dir_def split: option.splits node.splits oserror.splits)

text \<open>
  A \<open>mkdir\<close> that succeeds leaves the path a directory, and has made a directory of
  exactly the missing entries on the way to it.
\<close>

lemma mkdir_result:
  "mkdir d fs = Inr fs1 \<Longrightarrow>
     dir_status fs1 d = None \<and>
     fs1 = (\<lambda>q. if on_way_to q d \<and> q \<noteq> Root \<and> fs q = None then Some Dir else fs q)"
proof (induction d arbitrary: fs1)
  case Root
  then show ?case by (auto simp: is_dir_def)
next
  case (Child d n)
  show ?case
  proof (cases "dir_status fs d")
    case None
    note ds = None
    show ?thesis
    proof (cases "fs (Child d n)")
      case None
      with ds Child.prems have f1: "fs1 = fs(Child d n \<mapsto> Dir)"
        by (simp add: mkdir_Child del: mkdir.simps)
      have a: "dir_status fs1 (Child d n) = None"
        using ds by (simp add: f1 dir_status_upd not_on_way_to_Child)
      have b: "fs1 q =
          (if on_way_to q (Child d n) \<and> q \<noteq> Root \<and> fs q = None then Some Dir else fs q)" for q
        using ds None dir_status_None_Dir [OF ds, of q] by (auto simp: f1)
      from a b show ?thesis by blast
    next
      case (Some x)
      with ds Child.prems have f1: "fs1 = fs" and x: "x = Dir"
        by (auto simp: mkdir_Child simp del: mkdir.simps split: node.splits)
      have a: "dir_status fs1 (Child d n) = None"
        using ds Some x by (simp add: f1)
      have b: "fs1 q =
          (if on_way_to q (Child d n) \<and> q \<noteq> Root \<and> fs q = None then Some Dir else fs q)" for q
        using ds Some dir_status_None_Dir [OF ds, of q] by (auto simp: f1)
      from a b show ?thesis by blast
    qed
  next
    case (Some e)
    with Child.prems have e: "e = FileNotFoundError"
      by (auto simp: mkdir_Child simp del: mkdir.simps split: oserror.splits)
    with Some Child.prems obtain fs0 where m: "mkdir d fs = Inr fs0"
      and k: "mkdir_exist_ok (Child d n) fs0 = Inr fs1"
      by (auto simp: mkdir_Child simp del: mkdir.simps split: sum.splits)
    from Child.IH [OF m] have ds0: "dir_status fs0 d = None"
      and f0: "fs0 = (\<lambda>q. if on_way_to q d \<and> q \<noteq> Root \<and> fs q = None then Some Dir else fs q)"
      by blast+
    have same: "fs0 (Child d n) = fs (Child d n)"
      by (subst f0) (simp add: not_on_way_to_Child)
    show ?thesis
    proof (cases "fs (Child d n)")
      case None
      with k ds0 same have f1: "fs1 = fs0(Child d n \<mapsto> Dir)"
        by (simp add: mkdir_exist_ok_result)
      have a: "dir_status fs1 (Child d n) = None"
        using ds0 by (simp add: f1 dir_status_upd not_on_way_to_Child)
      have b: "fs1 q =
          (if on_way_to q (Child d n) \<and> q \<noteq> Root \<and> fs q = None then Some Dir else fs q)" for q
        using None by (auto simp: f1 f0)
      from a b show ?thesis by blast
    next
      case (Some x)
      with k ds0 same have f1: "fs1 = fs0" and x: "x = Dir"
        by (auto simp: mkdir_exist_ok_result split: node.splits)
      have a: "dir_status fs1 (Child d n) = None"
        using ds0 Some x same by (simp add: f1)
      have b: "fs1 q =
          (if on_way_to q (Child d n) \<and> q \<noteq> Root \<and> fs q = None then Some Dir else fs q)" for q
        using Some by (auto simp: f1 f0)
      from a b show ?thesis by blast
    qed
  qed
qed

lemma write_file_result:
  "write_file p c fs = Inr fs' \<Longrightarrow> p \<noteq> Root \<and> is_dir fs (parent p) \<and> fs' = fs(p \<mapsto> File c)"
  by (cases p) (auto simp: is_dir_def split: option.splits node.splits)

section \<open>Properties of the script\<close>

subsection \<open>Shared facts\<close>

lemma save_drawing_success:
  assumes "save_drawing lib molecule p sz fs = (None, fs')"
  shows "\<exists>fs1 c. mkdir (parent p) fs = Inr fs1 \<and> write_file p c fs1 = Inr fs'
           \<and> c = (if lower (suffix p) = ''.svg'' then drawing_text lib molecule sz
                  else the (image_save lib (MolToImage lib molecule sz) p))
           \<and> (lower (suffix p) \<noteq> ''.svg'' \<longrightarrow>
                image_save lib (MolToImage lib molecule sz) p \<noteq> None)"
  using assms
  by (auto simp: save_drawing_def split: sum.splits if_splits option.splits)

lemma save_drawing_no_exit: "fst (save_drawing lib molecule p sz fs) \<noteq> Some (SystemExit m)"
  by (auto simp: save_drawing_def split: sum.splits if_splits option.splits)

lemma read_smiles_exit:
  "read_smiles a w = Inl (SystemExit m) \<Longrightarrow>
     m = no_source_msg \<and> (smiles a = None \<or> smiles a = Some []) \<and> input a = None"
  by (auto simp: read_smiles_def split: if_splits option.splits sum.splits list.splits)

subsection \<open>Errors the script reports itself\<close>

text \<open>
  C2. For every SMILES string that the library reports as unparseable (\<open>MolFromSmiles\<close>
  returns \<open>None\<close>), the run ends with a non-zero status, prints a message that contains the
  offending string, and leaves the file system as it was: no output file and no directory
  is created.
\<close>

theorem invalid_smiles_exit:
  assumes "read_smiles a w = Inr s" and "MolFromSmiles lib s = None"
  shows "run_script lib a w =
           \<lparr>status = 1, stderr = Message (''Invalid SMILES string: '' @ s), disk = files w\<rparr>"
  using assms by (simp add: run_script_def main_def build_molecule_def invalid_msg_def)

theorem invalid_smiles_exit_witness:
  "read_smiles (cli (Some '' not_a_molecule '') None (Child (Child Root ''plots'') ''out.png''))
      \<lparr>stdin = [], files = Map.empty\<rparr> = Inr ''not_a_molecule''
   \<and> MolFromSmiles toy_rdkit ''not_a_molecule'' = None
   \<and> run_script toy_rdkit
        (cli (Some '' not_a_molecule '') None (Child (Child Root ''plots'') ''out.png''))
        \<lparr>stdin = [], files = Map.empty\<rparr> =
       \<lparr>status = 1, stderr = Message ''Invalid SMILES string: not_a_molecule'',
        disk = Map.empty\<rparr>"
proof -
  let ?a = "cli (Some '' not_a_molecule '') None (Child (Child Root ''plots'') ''out.png'')"
  let ?w = "\<lparr>stdin = [], files = Map.empty\<rparr>"
  have r: "read_smiles ?a ?w = Inr ''not_a_molecule''"
    by (simp add: read_smiles_def cli_def strip_def isspace_def)
  have m: "MolFromSmiles toy_rdkit ''not_a_molecule'' = None"
    by (simp add: toy_rdkit_def)
  from invalid_smiles_exit [OF r m] r m show ?thesis by simp
qed

text \<open>
  C3. For every invocation that supplies neither a usable \<open>--smiles\<close> argument (it is absent
  or empty) nor an \<open>--input\<close> path, the run ends with a non-zero status and a message for
  the user, and writes no output file.
\<close>

theorem no_source_exit:
  assumes "smiles a = None \<or> smiles a = Some []" and "input a = None"
  shows "run_script lib a w =
           \<lparr>status = 1,
            stderr = Message ''Please provide a SMILES string with --smiles or --input.'',
            disk = files w\<rparr>"
  using assms by (auto simp add: run_script_def main_def read_smiles_def no_source_msg_def)

theorem no_source_exit_witness:
  "smiles (cli None None (Child Root ''out.png'')) = None
   \<and> input (cli None None (Child Root ''out.png'')) = None
   \<and> run_script toy_rdkit (cli None None (Child Root ''out.png''))
        \<lparr>stdin = ''CCO'', files = Map.empty\<rparr> =
       \<lparr>status = 1,
        stderr = Message ''Please provide a SMILES string with --smiles or --input.'',
        disk = Map.empty\<rparr>"
proof -
  let ?a = "cli None None (Child Root ''out.png'')"
  have h1: "smiles ?a = None \<or> smiles ?a = Some []" and h2: "input ?a = None"
    by (simp_all add: cli_def)
  from no_source_exit [OF h1 h2, of toy_rdkit "\<lparr>stdin = ''CCO'', files = Map.empty\<rparr>"] h2
  show ?thesis by (simp add: cli_def)
qed

text \<open>
  C9. An empty \<open>--smiles\<close> is treated as an absent one: the run is the run without
  \<open>--smiles\<close>. With no \<open>--input\<close> it ends with the message that no source was given; with
  \<open>--input\<close> the string is read from the file, and the empty string is not used as the
  SMILES.
\<close>

theorem empty_smiles_as_absent:
  "run_script lib (a\<lparr>smiles := Some []\<rparr>) w = run_script lib (a\<lparr>smiles := None\<rparr>) w
   \<and> (input a = None \<longrightarrow>
         run_script lib (a\<lparr>smiles := Some []\<rparr>) w =
           \<lparr>status = 1, stderr = Message no_source_msg, disk = files w\<rparr>)
   \<and> (input a = Some p \<longrightarrow>
         read_smiles (a\<lparr>smiles := Some []\<rparr>) w =
           (case read_text p (files w) of
              Inl e \<Rightarrow> Inl (OSError e)
            | Inr t \<Rightarrow> (case splitlines t of [] \<Rightarrow> Inl IndexError | l # ls \<Rightarrow> Inr (strip l))))"
proof -
  have r: "read_smiles (a\<lparr>smiles := Some []\<rparr>) w = read_smiles (a\<lparr>smiles := None\<rparr>) w"
    by (simp add: read_smiles_def)
  have m: "run_script lib (a\<lparr>smiles := Some []\<rparr>) w = run_script lib (a\<lparr>smiles := None\<rparr>) w"
    by (simp add: run_script_def main_def r split: sum.splits)
  have n: "run_script lib (a\<lparr>smiles := Some []\<rparr>) w =
           \<lparr>status = 1, stderr = Message no_source_msg, disk = files w\<rparr>"
    if "input a = None"
    using that by (simp add: run_script_def main_def read_smiles_def)
  have f: "read_smiles (a\<lparr>smiles := Some []\<rparr>) w =
           (case read_text p (files w) of
              Inl e \<Rightarrow> Inl (OSError e)
            | Inr t \<Rightarrow> (case splitlines t of [] \<Rightarrow> Inl IndexError | l # ls \<Rightarrow> Inr (strip l)))"
    if "input a = Some p"
    using that by (simp add: read_smiles_def)
  from m n f show ?thesis by blast
qed

theorem empty_smiles_as_absent_witness:
  "run_script toy_rdkit (cli (Some []) None (Child Root ''out.png''))
      \<lparr>stdin = ''CCO'', files = Map.empty\<rparr> =
     \<lparr>status = 1, stderr = Message no_source_msg, disk = Map.empty\<rparr>
   \<and> read_smiles (cli (Some []) (Some (Child Root ''mol.smi'')) (Child Root ''out.png''))
      \<lparr>stdin = ''N'', files = disk_with ''CCO\<newline>''\<rparr> = Inr ''CCO''"
proof -
  let ?w1 = "\<lparr>stdin = ''CCO'', files = Map.empty\<rparr>"
  let ?w2 = "\<lparr>stdin = ''N'', files = disk_with ''CCO\<newline>''\<rparr>"
  have e: "(case read_text (Child Root ''mol.smi'') (files ?w2) of
              Inl e \<Rightarrow> Inl (OSError e)
            | Inr t \<Rightarrow> (case splitlines t of [] \<Rightarrow> Inl IndexError | l # ls \<Rightarrow> Inr (strip l)))
           = Inr ''CCO''"
    by (simp add: disk_with_def splitlines_def is_linebreak_def strip_def isspace_def)
  have u1: "(cli None None (Child Root ''out.png''))\<lparr>smiles := Some []\<rparr> =
            cli (Some []) None (Child Root ''out.png'')"
    and i1: "input (cli None None (Child Root ''out.png'')) = None"
    by (simp_all add: cli_def)
  have u2: "(cli None (Some (Child Root ''mol.smi'')) (Child Root ''out.png''))\<lparr>smiles := Some []\<rparr> =
            cli (Some []) (Some (Child Root ''mol.smi'')) (Child Root ''out.png'')"
    and i2: "input (cli None (Some (Child Root ''mol.smi'')) (Child Root ''out.png'')) =
            Some (Child Root ''mol.smi'')"
    by (simp_all add: cli_def)
  from empty_smiles_as_absent [of toy_rdkit "cli None None (Child Root ''out.png'')" ?w1] i1
  have "run_script toy_rdkit ((cli None None (Child Root ''out.png''))\<lparr>smiles := Some []\<rparr>) ?w1 =
     \<lparr>status = 1, stderr = Message no_source_msg, disk = files ?w1\<rparr>"
    by blast
  then have c1: "run_script toy_rdkit (cli (Some []) None (Child Root ''out.png'')) ?w1 =
     \<lparr>status = 1, stderr = Message no_source_msg, disk = Map.empty\<rparr>"
    by (simp add: u1)
  from empty_smiles_as_absent [of toy_rdkit
      "cli None (Some (Child Root ''mol.smi'')) (Child Root ''out.png'')" ?w2
      "Child Root ''mol.smi''"] i2
  have "read_smiles ((cli None (Some (Child Root ''mol.smi'')) (Child Root ''out.png''))\<lparr>smiles := Some []\<rparr>) ?w2 =
          (case read_text (Child Root ''mol.smi'') (files ?w2) of
              Inl e \<Rightarrow> Inl (OSError e)
            | Inr t \<Rightarrow> (case splitlines t of [] \<Rightarrow> Inl IndexError | l # ls \<Rightarrow> Inr (strip l)))"
    by blast
  then have c2: "read_smiles (cli (Some []) (Some (Child Root ''mol.smi'')) (Child Root ''out.png''))
      ?w2 = Inr ''CCO''"
    by (simp only: u2 e)
  from c1 c2 show ?thesis by blast
qed

subsection \<open>What \<open>save_drawing\<close> writes\<close>

text \<open>
  C5. For every run of \<open>save_drawing\<close> that succeeds, the missing directories above the
  output path are created first and the output file is then created or overwritten;
  nothing else in the file system changes. The file system afterwards is the one before,
  with the output path holding a file and every entry that was missing on the way to its
  parent holding a directory.
\<close>

theorem save_drawing_effect:
  assumes "save_drawing lib molecule p sz fs = (None, fs')"
  shows "\<exists>fs1 c. mkdir (parent p) fs = Inr fs1 \<and> write_file p c fs1 = Inr fs'
           \<and> is_dir fs' (parent p)
           \<and> fs' = (\<lambda>q. if q = p then Some (File c)
                        else if on_way_to q (parent p) \<and> q \<noteq> Root \<and> fs q = None then Some Dir
                        else fs q)"
proof -
  from save_drawing_success [OF assms] obtain fs1 c
    where m: "mkdir (parent p) fs = Inr fs1" and wr: "write_file p c fs1 = Inr fs'"
    by blast
  from write_file_result [OF wr] obtain d n where p: "p = Child d n"
    and f': "fs' = fs1(p \<mapsto> File c)"
    by (cases p) auto
  from mkdir_result [OF m] have ds: "dir_status fs1 (parent p) = None"
    and f1: "fs1 =
      (\<lambda>q. if on_way_to q (parent p) \<and> q \<noteq> Root \<and> fs q = None then Some Dir else fs q)"
    by blast+
  have "dir_status fs' (parent p) = None"
    using ds by (simp add: f' p dir_status_upd not_on_way_to_Child)
  then have a: "is_dir fs' (parent p)" by (simp add: is_dir_def)
  have b: "fs' = (\<lambda>q. if q = p then Some (File c)
                        else if on_way_to q (parent p) \<and> q \<noteq> Root \<and> fs q = None then Some Dir
                        else fs q)"
    by (subst f', subst f1) (rule ext, simp)
  from m wr a b show ?thesis by blast
qed

theorem save_drawing_effect_witness:
  "save_drawing toy_rdkit ''CCO'' (Child (Child (Child Root ''plots'') ''mol'') ''ethanol.png'')
      (400, 300) [Child Root ''plots'' \<mapsto> Dir, Child Root ''notes.txt'' \<mapsto> File ''keep'']
    = (None,
       [Child Root ''plots'' \<mapsto> Dir, Child Root ''notes.txt'' \<mapsto> File ''keep'',
        Child (Child Root ''plots'') ''mol'' \<mapsto> Dir,
        Child (Child (Child Root ''plots'') ''mol'') ''ethanol.png'' \<mapsto> File ''PNG:CCO''])
   \<and> (\<exists>fs1 c.
         mkdir (Child (Child Root ''plots'') ''mol'')
           [Child Root ''plots'' \<mapsto> Dir, Child Root ''notes.txt'' \<mapsto> File ''keep''] = Inr fs1
       \<and> write_file (Child (Child (Child Root ''plots'') ''mol'') ''ethanol.png'') c fs1 =
           Inr [Child Root ''plots'' \<mapsto> Dir, Child Root ''notes.txt'' \<mapsto> File ''keep'',
                Child (Child Root ''plots'') ''mol'' \<mapsto> Dir,
                Child (Child (Child Root ''plots'') ''mol'') ''ethanol.png'' \<mapsto> File ''PNG:CCO''])"
proof -
  let ?p = "Child (Child (Child Root ''plots'') ''mol'') ''ethanol.png''"
  let ?fs = "[Child Root ''plots'' \<mapsto> Dir, Child Root ''notes.txt'' \<mapsto> File ''keep'']"
  let ?fs' = "[Child Root ''plots'' \<mapsto> Dir, Child Root ''notes.txt'' \<mapsto> File ''keep'',
        Child (Child Root ''plots'') ''mol'' \<mapsto> Dir, ?p \<mapsto> File ''PNG:CCO'']"
  have h: "save_drawing toy_rdkit ''CCO'' ?p (400, 300) ?fs = (None, ?fs')"
    by (simp add: string_eval script_eval)
  from save_drawing_effect [OF h] have
    "\<exists>fs1 c. mkdir (parent ?p) ?fs = Inr fs1 \<and> write_file ?p c fs1 = Inr ?fs'"
    by blast
  with h show ?thesis by simp
qed




text \<open>
  C10. The extension is matched without regard to letter case: for every output path
  whose extension is \<open>.svg\<close> once in lower case (\<open>.SVG\<close>, \<open>.Svg\<close>), the file written holds
  the SVG text, and the raster functions of the library have no part in the result.
\<close>

theorem svg_suffix_any_case:
  assumes "lower (suffix p) = ''.svg''"
  shows "(save_drawing lib molecule p sz fs = (None, fs') \<longrightarrow>
            fs' p = Some (File (drawing_text lib molecule sz)))
       \<and> save_drawing (lib\<lparr>MolToImage := g, image_save := f\<rparr>) molecule p sz fs =
           save_drawing lib molecule p sz fs"
proof -
  have a: "fs' p = Some (File (drawing_text lib molecule sz))"
    if s: "save_drawing lib molecule p sz fs = (None, fs')"
  proof -
    from save_drawing_success [OF s] assms obtain fs1
      where wr: "write_file p (drawing_text lib molecule sz) fs1 = Inr fs'"
      by auto
    from write_file_result [OF wr] show ?thesis by simp
  qed
  have b: "save_drawing (lib\<lparr>MolToImage := g, image_save := f\<rparr>) molecule p sz fs =
           save_drawing lib molecule p sz fs"
    using assms by (simp add: save_drawing_def drawing_text_def split: sum.splits)
  from a b show ?thesis by blast
qed

theorem svg_suffix_any_case_witness:
  "lower (suffix (Child Root ''mol.Svg'')) = ''.svg''
   \<and> save_drawing toy_rdkit ''CCN'' (Child Root ''mol.Svg'') (400, 300) Map.empty =
       (None, [Child Root ''mol.Svg'' \<mapsto> File ''<svg>CCN</svg>''])
   \<and> drawing_text toy_rdkit ''CCN'' (400, 300) = ''<svg>CCN</svg>''
   \<and> save_drawing (toy_rdkit\<lparr>MolToImage := (\<lambda>m sz. ''image''), image_save := (\<lambda>i p. Some ''bytes'')\<rparr>)
        ''CCN'' (Child Root ''mol.Svg'') (400, 300) Map.empty =
       (None, [Child Root ''mol.Svg'' \<mapsto> File ''<svg>CCN</svg>''])"
proof -
  let ?p = "Child Root ''mol.Svg''"
  have e: "lower (suffix ?p) = ''.svg''"
    by (simp add: string_eval)
  have h: "save_drawing toy_rdkit ''CCN'' ?p (400, 300) Map.empty =
       (None, [?p \<mapsto> File ''<svg>CCN</svg>''])"
    by (simp add: string_eval script_eval)
  from svg_suffix_any_case [OF e, where lib = toy_rdkit and molecule = "''CCN''"
      and sz = "(400, 300)" and fs = Map.empty and fs' = "[?p \<mapsto> File ''<svg>CCN</svg>'']"
      and g = "\<lambda>m sz. ''image''" and f = "\<lambda>i p. Some ''bytes''"] h
  have "drawing_text toy_rdkit ''CCN'' (400, 300) = ''<svg>CCN</svg>''
      \<and> save_drawing (toy_rdkit\<lparr>MolToImage := (\<lambda>m sz. ''image''), image_save := (\<lambda>i p. Some ''bytes'')\<rparr>)
        ''CCN'' ?p (400, 300) Map.empty = (None, [?p \<mapsto> File ''<svg>CCN</svg>''])"
    by simp
  with e h show ?thesis by blast
qed

subsection \<open>Where the SMILES string comes from\<close>

text \<open>
  C1 (amended). \<open>read_smiles\<close> takes the string from one source, in this order: a
  non-empty \<open>--smiles\<close> is used (standard input is read when it is \<open>-\<close>); otherwise, when
  \<open>--input\<close> is given and the file can be read and has a line, the result is the first line
  of the file, empty or not. In every case the string returned has no whitespace at
  either end.
\<close>

theorem read_smiles_sources:
  "(smiles a = Some s \<and> s \<noteq> [] \<and> s \<noteq> ''-'' \<longrightarrow> read_smiles a w = Inr (strip s))
   \<and> (smiles a = Some ''-'' \<longrightarrow> read_smiles a w = Inr (strip (stdin w)))
   \<and> ((smiles a = None \<or> smiles a = Some []) \<and> input a = Some p
        \<and> read_text p (files w) = Inr t \<and> splitlines t = l # ls \<longrightarrow>
          read_smiles a w = Inr (strip l))
   \<and> (read_smiles a w = Inr r \<longrightarrow> r = [] \<or> (\<not> isspace (hd r) \<and> \<not> isspace (last r)))"
proof -
  have "\<exists>x. r = strip x" if "read_smiles a w = Inr r"
    using that
    by (auto simp: read_smiles_def split: if_splits option.splits sum.splits list.splits)
  then have "r = [] \<or> (\<not> isspace (hd r) \<and> \<not> isspace (last r))" if "read_smiles a w = Inr r"
    using that strip_trimmed by blast
  then show ?thesis
    by (auto simp: read_smiles_def split: list.splits)
qed

theorem read_smiles_sources_witness:
  "read_smiles (cli (Some '' CCO '') (Some (Child Root ''mol.smi'')) (Child Root ''out.png''))
      \<lparr>stdin = ''N'', files = disk_with ''C''\<rparr> = Inr ''CCO''
   \<and> read_smiles (cli (Some ''-'') (Some (Child Root ''mol.smi'')) (Child Root ''out.png''))
      \<lparr>stdin = '' CCO\<newline>'', files = disk_with ''C''\<rparr> = Inr ''CCO''
   \<and> read_text (Child Root ''mol.smi'') (disk_with ''CCO\<newline>CCN\<newline>'') = Inr ''CCO\<newline>CCN\<newline>''
   \<and> splitlines ''CCO\<newline>CCN\<newline>'' = [''CCO'', ''CCN'']
   \<and> read_smiles (cli None (Some (Child Root ''mol.smi'')) (Child Root ''out.png''))
      \<lparr>stdin = ''N'', files = disk_with ''CCO\<newline>CCN\<newline>''\<rparr> = Inr ''CCO''
   \<and> \<not> isspace (hd ''CCO'') \<and> \<not> isspace (last ''CCO'')"
proof -
  let ?f = "Child Root ''mol.smi''"
  let ?a1 = "cli (Some '' CCO '') (Some ?f) (Child Root ''out.png'')"
  let ?a2 = "cli (Some ''-'') (Some ?f) (Child Root ''out.png'')"
  let ?a3 = "cli None (Some ?f) (Child Root ''out.png'')"
  let ?w1 = "\<lparr>stdin = ''N'', files = disk_with ''C''\<rparr>"
  let ?w2 = "\<lparr>stdin = '' CCO\<newline>'', files = disk_with ''C''\<rparr>"
  let ?w3 = "\<lparr>stdin = ''N'', files = disk_with ''CCO\<newline>CCN\<newline>''\<rparr>"
  have rt: "read_text ?f (disk_with ''CCO\<newline>CCN\<newline>'') = Inr ''CCO\<newline>CCN\<newline>''"
    by (simp add: disk_with_def)
  have sl: "splitlines ''CCO\<newline>CCN\<newline>'' = [''CCO'', ''CCN'']"
    by (simp add: splitlines_def is_linebreak_def)
  have s1: "strip '' CCO '' = ''CCO''" and s2: "strip '' CCO\<newline>'' = ''CCO''"
    and s3: "strip ''CCO'' = ''CCO''"
    by (simp_all add: strip_def isspace_def)
  from read_smiles_sources [where a = ?a1 and s = "'' CCO ''" and w = ?w1]
  have c1: "read_smiles ?a1 ?w1 = Inr ''CCO''"
    by (simp add: cli_def s1)
  from read_smiles_sources [where a = ?a2 and w = ?w2]
  have c2: "read_smiles ?a2 ?w2 = Inr ''CCO''"
    by (simp add: cli_def s2)
  from read_smiles_sources [where a = ?a3 and w = ?w3 and p = ?f
      and t = "''CCO\<newline>CCN\<newline>''" and l = "''CCO''" and ls = "[''CCN'']"] rt sl
  have c3: "read_smiles ?a3 ?w3 = Inr ''CCO''"
    by (simp add: cli_def s3)
  from read_smiles_sources [where a = ?a3 and w = ?w3 and r = "''CCO''"] c3
  have c4: "\<not> isspace (hd ''CCO'') \<and> \<not> isspace (last ''CCO'')"
    by simp
  from c1 c2 rt sl c3 c4 show ?thesis by blast
qed

text \<open>
  C1 as stated fails: the lines of a file that holds an empty line and then \<open>CCO\<close> are the
  empty string and \<open>CCO\<close>, so its first non-empty line is \<open>CCO\<close>, yet \<open>read_smiles\<close> returns
  the empty string.
\<close>

theorem read_smiles_first_line_counterexample:
  "splitlines ''\<newline>CCO\<newline>'' = ['''', ''CCO'']
   \<and> read_smiles (cli None (Some (Child Root ''mol.smi'')) (Child Root ''out.png''))
        \<lparr>stdin = [], files = disk_with ''\<newline>CCO\<newline>''\<rparr> = Inr ''''"
  by (simp add: string_eval script_eval)

text \<open>
  C6 (amended). With \<open>--smiles -\<close> and \<open>CCO\<close> followed by a newline on standard input the run
  is the run with \<open>--smiles CCO\<close>. In general, for an inline string that is not empty and
  not \<open>-\<close>, and a text on standard input that is the same once trimmed, the two runs resolve
  the same string and end alike.
\<close>

theorem stdin_same_as_inline:
  "run_script lib (a\<lparr>smiles := Some ''-''\<rparr>) (w\<lparr>stdin := ''CCO\<newline>''\<rparr>) =
     run_script lib (a\<lparr>smiles := Some ''CCO''\<rparr>) w
   \<and> (u \<noteq> [] \<and> u \<noteq> ''-'' \<and> strip t = strip u \<longrightarrow>
         read_smiles (a\<lparr>smiles := Some ''-''\<rparr>) (w\<lparr>stdin := t\<rparr>) =
           read_smiles (a\<lparr>smiles := Some u\<rparr>) w
       \<and> run_script lib (a\<lparr>smiles := Some ''-''\<rparr>) (w\<lparr>stdin := t\<rparr>) =
           run_script lib (a\<lparr>smiles := Some u\<rparr>) w)"
proof -
  have g: "read_smiles (a\<lparr>smiles := Some ''-''\<rparr>) (w\<lparr>stdin := t\<rparr>) =
             read_smiles (a\<lparr>smiles := Some u\<rparr>) w"
    if "u \<noteq> []" "u \<noteq> ''-''" "strip t = strip u" for t u
    using that by (cases u) (auto simp: read_smiles_def)
  have h: "run_script lib (a\<lparr>smiles := Some ''-''\<rparr>) (w\<lparr>stdin := t\<rparr>) =
             run_script lib (a\<lparr>smiles := Some u\<rparr>) w"
    if "u \<noteq> []" "u \<noteq> ''-''" "strip t = strip u" for t u
    using g [OF that] by (simp add: run_script_def main_def split: sum.splits)
  have "strip ''CCO\<newline>'' = strip ''CCO''"
    by (simp add: strip_def isspace_def)
  then have "run_script lib (a\<lparr>smiles := Some ''-''\<rparr>) (w\<lparr>stdin := ''CCO\<newline>''\<rparr>) =
     run_script lib (a\<lparr>smiles := Some ''CCO''\<rparr>) w"
    by (intro h) simp_all
  with g h show ?thesis by blast
qed

theorem stdin_same_as_inline_witness:
  "strip '' CCN\<newline>'' = strip ''CCN  ''
   \<and> read_smiles (cli (Some ''-'') None (Child Root ''out.png'')) \<lparr>stdin = '' CCN\<newline>'', files = Map.empty\<rparr> = Inr ''CCN''
   \<and> read_smiles (cli (Some ''CCN  '') None (Child Root ''out.png'')) \<lparr>stdin = [], files = Map.empty\<rparr> = Inr ''CCN''
   \<and> run_script toy_rdkit (cli (Some ''-'') None (Child Root ''out.png'')) \<lparr>stdin = '' CCN\<newline>'', files = Map.empty\<rparr> =
       run_script toy_rdkit (cli (Some ''CCN  '') None (Child Root ''out.png'')) \<lparr>stdin = [], files = Map.empty\<rparr>"
proof -
  let ?a = "cli None None (Child Root ''out.png'')"
  let ?w = "\<lparr>stdin = [], files = Map.empty\<rparr>"
  have s: "strip '' CCN\<newline>'' = strip ''CCN  ''"
    by (simp add: strip_def isspace_def)
  have r: "read_smiles (cli (Some ''CCN  '') None (Child Root ''out.png'')) ?w = Inr ''CCN''"
    by (simp add: read_smiles_def cli_def strip_def isspace_def)
  from stdin_same_as_inline [where a = ?a and w = ?w and u = "''CCN  ''" and t = "'' CCN\<newline>'' " and lib = toy_rdkit] s r
  show ?thesis by (simp add: cli_def)
qed

text \<open>
  C6 as stated fails for the empty text: on standard input it resolves to the empty
  string, while an empty \<open>--smiles\<close> is no source at all and the run ends with the message
  that none was given.
\<close>

theorem stdin_empty_counterexample:
  "read_smiles (cli (Some ''-'') None (Child Root ''out.png'')) \<lparr>stdin = [], files = Map.empty\<rparr> = Inr []
   \<and> read_smiles (cli (Some []) None (Child Root ''out.png'')) \<lparr>stdin = [], files = Map.empty\<rparr> =
        Inl (SystemExit no_source_msg)"
  by (simp add: read_smiles_def cli_def strip_def)

text \<open>
  C8 (amended). When \<open>--smiles\<close> is not usable and the first line of the \<open>--input\<close> file is
  empty once trimmed, the empty string is what reaches the parser. The run ends with the
  invalid SMILES message and status 1 when the parser returns no molecule for the empty
  string; when it returns one, the run goes on to \<open>save_drawing\<close> and does not end with
  that message.
\<close>

theorem empty_first_line:
  assumes "smiles a = None \<or> smiles a = Some []" and "input a = Some p"
    and "read_text p (files w) = Inr t" and "splitlines t = l # ls" and "strip l = []"
  shows "read_smiles a w = Inr []
       \<and> (MolFromSmiles lib [] = None \<longrightarrow>
            run_script lib a w =
              \<lparr>status = 1, stderr = Message ''Invalid SMILES string: '', disk = files w\<rparr>)
       \<and> (MolFromSmiles lib [] \<noteq> None \<longrightarrow>
            main lib a w =
              save_drawing lib (Compute2DCoords lib (the (MolFromSmiles lib []))) (output_arg a)
                (size_arg a) (files w)
            \<and> fst (main lib a w) \<noteq> Some (SystemExit (invalid_msg [])))"
proof -
  from assms have r: "read_smiles a w = Inr []"
    by (auto simp: read_smiles_def)
  have n: "run_script lib a w =
              \<lparr>status = 1, stderr = Message ''Invalid SMILES string: '', disk = files w\<rparr>"
    if "MolFromSmiles lib [] = None"
    using that r by (simp add: run_script_def main_def build_molecule_def invalid_msg_def)
  have s: "main lib a w =
              save_drawing lib (Compute2DCoords lib (the (MolFromSmiles lib []))) (output_arg a)
                (size_arg a) (files w)"
    if "MolFromSmiles lib [] \<noteq> None"
    using that r by (auto simp: main_def build_molecule_def)
  from r n s save_drawing_no_exit show ?thesis by metis
qed

theorem empty_first_line_witness:
  "read_text (Child Root ''mol.smi'') (disk_with ''\<newline>CCO\<newline>'') = Inr ''\<newline>CCO\<newline>''
   \<and> splitlines ''\<newline>CCO\<newline>'' = ['''', ''CCO'']
   \<and> MolFromSmiles toy_rdkit [] = None
   \<and> run_script toy_rdkit (cli None (Some (Child Root ''mol.smi'')) (Child Root ''out.png''))
        \<lparr>stdin = [], files = disk_with ''\<newline>CCO\<newline>''\<rparr> =
       \<lparr>status = 1, stderr = Message ''Invalid SMILES string: '', disk = disk_with ''\<newline>CCO\<newline>''\<rparr>"
proof -
  let ?f = "Child Root ''mol.smi''"
  let ?a = "cli None (Some ?f) (Child Root ''out.png'')"
  let ?w = "\<lparr>stdin = [], files = disk_with ''\<newline>CCO\<newline>''\<rparr>"
  have h1: "smiles ?a = None \<or> smiles ?a = Some []" and h2: "input ?a = Some ?f"
    by (simp_all add: cli_def)
  have h3: "read_text ?f (files ?w) = Inr ''\<newline>CCO\<newline>''"
    by (simp add: disk_with_def)
  have h4: "splitlines ''\<newline>CCO\<newline>'' = [''''] @ [''CCO'']"
    by (simp add: splitlines_def is_linebreak_def)
  have h5: "strip '''' = []" by (simp add: strip_def)
  have h6: "MolFromSmiles toy_rdkit [] = None" by (simp add: toy_rdkit_def)
  from empty_first_line [OF h1 h2 h3 _ h5, of "[''CCO'']" toy_rdkit] h3 h4 h6
  show ?thesis by simp
qed

text \<open>
  C8 as stated fails when the parser accepts the empty string: with the lenient stand-in
  the same file leads to a drawing of the empty molecule and status 0.
\<close>

theorem empty_first_line_counterexample:
  "run_script toy_rdkit_lenient (cli None (Some (Child Root ''mol.smi'')) (Child Root ''out.svg''))
     \<lparr>stdin = [], files = disk_with ''\<newline>CCO\<newline>''\<rparr> =
     \<lparr>status = 0, stderr = Silent,
      disk = (disk_with ''\<newline>CCO\<newline>'')(Child Root ''out.svg'' \<mapsto> File ''<svg></svg>'')\<rparr>"
  by (simp add: string_eval script_eval)

subsection \<open>The error exits\<close>

text \<open>
  C7 (amended). The script itself ends a run with a message in exactly two cases: no
  source was given, or the parser returned no molecule for the resolved string. In both
  the status is 1, the message is on standard error and the file system is as it was
  before the run.
\<close>

theorem system_exit_kinds:
  assumes "fst (main lib a w) = Some (SystemExit m)"
  shows "((m = no_source_msg \<and> (smiles a = None \<or> smiles a = Some []) \<and> input a = None)
          \<or> (\<exists>s. read_smiles a w = Inr s \<and> MolFromSmiles lib s = None \<and> m = invalid_msg s))
       \<and> run_script lib a w = \<lparr>status = 1, stderr = Message m, disk = files w\<rparr>"
proof (cases "read_smiles a w")
  case (Inl e)
  with assms have "e = SystemExit m" by (simp add: main_def)
  with Inl read_smiles_exit [of a w m] show ?thesis
    by (simp add: run_script_def main_def)
next
  case (Inr s)
  show ?thesis
  proof (cases "MolFromSmiles lib s")
    case None
    with Inr assms show ?thesis
      by (simp add: run_script_def main_def build_molecule_def)
  next
    case (Some mol)
    with Inr assms
      save_drawing_no_exit [of lib "Compute2DCoords lib mol" "output_arg a" "size_arg a" "files w" m]
    show ?thesis by (simp add: main_def build_molecule_def)
  qed
qed

theorem system_exit_kinds_witness:
  "fst (main toy_rdkit (cli None None (Child Root ''out.png'')) \<lparr>stdin = [], files = Map.empty\<rparr>) =
     Some (SystemExit no_source_msg)
   \<and> run_script toy_rdkit (cli None None (Child Root ''out.png'')) \<lparr>stdin = [], files = Map.empty\<rparr> =
       \<lparr>status = 1, stderr = Message no_source_msg, disk = Map.empty\<rparr>
   \<and> fst (main toy_rdkit (cli (Some ''xyz'') None (Child Root ''out.png''))
          \<lparr>stdin = [], files = Map.empty\<rparr>) = Some (SystemExit (invalid_msg ''xyz''))
   \<and> run_script toy_rdkit (cli (Some ''xyz'') None (Child Root ''out.png''))
        \<lparr>stdin = [], files = Map.empty\<rparr> =
       \<lparr>status = 1, stderr = Message (invalid_msg ''xyz''), disk = Map.empty\<rparr>"
proof -
  let ?w = "\<lparr>stdin = [], files = Map.empty\<rparr>"
  let ?a1 = "cli None None (Child Root ''out.png'')"
  let ?a2 = "cli (Some ''xyz'') None (Child Root ''out.png'')"
  have h1: "fst (main toy_rdkit ?a1 ?w) = Some (SystemExit no_source_msg)"
    by (simp add: main_def read_smiles_def cli_def)
  have h2: "fst (main toy_rdkit ?a2 ?w) = Some (SystemExit (invalid_msg ''xyz''))"
    by (simp add: main_def read_smiles_def build_molecule_def cli_def toy_rdkit_def
        strip_def isspace_def)
  from system_exit_kinds [OF h1]
  have c1: "run_script toy_rdkit ?a1 ?w =
       \<lparr>status = 1, stderr = Message no_source_msg, disk = Map.empty\<rparr>"
    by simp
  from system_exit_kinds [OF h2]
  have c2: "run_script toy_rdkit ?a2 ?w =
       \<lparr>status = 1, stderr = Message (invalid_msg ''xyz''), disk = Map.empty\<rparr>"
    by simp
  from h1 c1 h2 c2 show ?thesis by blast
qed

text \<open>
  C7 as stated fails: a run can end in an error that is neither of the two. An empty
  \<open>--input\<close> file ends the run with the traceback of an \<open>IndexError\<close>, and a missing one with
  the traceback of a \<open>FileNotFoundError\<close>.
\<close>

theorem uncaught_error_counterexample:
  "run_script toy_rdkit (cli None (Some (Child Root ''mol.smi'')) (Child Root ''out.png''))
      \<lparr>stdin = [], files = disk_with []\<rparr> =
     \<lparr>status = 1, stderr = Traceback IndexError, disk = disk_with []\<rparr>
   \<and> run_script toy_rdkit (cli None (Some (Child Root ''mol.smi'')) (Child Root ''out.png''))
      \<lparr>stdin = [], files = Map.empty\<rparr> =
     \<lparr>status = 1, stderr = Traceback (OSError FileNotFoundError), disk = Map.empty\<rparr>"
  by (simp add: string_eval script_eval)

end
